theory Spec2Isabelle
  imports Complex_Main
begin

section \<open>JavaScript values\<close>

text \<open>
  The client is written in JavaScript and every response body it consumes comes out of
  \<^verbatim>\<open>res.json()\<close>, so the values it handles are untyped. A number is an IEEE double;
  the program never calculates with one, it only tests it (\<^verbatim>\<open>||\<close>, \<^verbatim>\<open>> 0\<close>) and
  converts it to text, so a finite double is modelled by the real it equals (both zeros
  are \<open>Fin 0\<close>), next to the two infinities and NaN.
\<close>

datatype number = Fin real | PosInf | NegInf | NaN

text \<open>
  An object is the list of its own properties in the order \<^verbatim>\<open>JSON.parse\<close> met them.
  \<open>Undefined\<close> is the result of reading a property that is not there; \<^verbatim>\<open>JSON.parse\<close>
  itself never yields it. Strings are lists of characters.
\<close>

datatype jsval =
    Undefined
  | Null
  | Bool bool
  | Num number
  | Str string
  | Arr "jsval list"
  | Obj "(string \<times> jsval) list"

text \<open>
  The exceptions that can be thrown inside the handlers' \<^verbatim>\<open>try\<close> blocks and during
  rendering. Every \<^verbatim>\<open>catch\<close> of the program ignores which one it caught.
\<close>

datatype js_error =
    TypeError
  | FetchRejected
  | JsonRejected
  | UploadFailed
  | InvalidChild

text \<open>
  The two conversions between numbers and text are ECMAScript's \<^verbatim>\<open>Number::toString\<close> and
  \<^verbatim>\<open>StringToNumber\<close>. They belong to the language, not to the program, and are taken as
  parameters.
\<close>

record js_env =
  number_to_string :: "number \<Rightarrow> string"
  string_to_number :: "string \<Rightarrow> number"

text \<open>
  An environment for the runs in which the program converts no number to text and reads no
  text as a number, where any choice of the two conversions gives the same run.
\<close>

definition plain_env :: js_env where
  "plain_env = \<lparr>number_to_string = (\<lambda>n. []), string_to_number = (\<lambda>s. NaN)\<rparr>"

text \<open>\<^verbatim>\<open>ToBoolean\<close>: what \<^verbatim>\<open>!v\<close>, \<^verbatim>\<open>v || w\<close> and \<^verbatim>\<open>v && w\<close> test.\<close>

fun truthy :: "jsval \<Rightarrow> bool" where
  "truthy Undefined = False"
| "truthy Null = False"
| "truthy (Bool b) = b"
| "truthy (Num n) = (case n of Fin r \<Rightarrow> r \<noteq> 0 | PosInf \<Rightarrow> True | NegInf \<Rightarrow> True | NaN \<Rightarrow> False)"
| "truthy (Str s) = (s \<noteq> [])"
| "truthy (Arr xs) = True"
| "truthy (Obj kvs) = True"

text \<open>\<^verbatim>\<open>a || b\<close>, for a right operand whose evaluation has no effect (here always a literal).\<close>

definition js_or :: "jsval \<Rightarrow> jsval \<Rightarrow> jsval" where
  "js_or a b = (if truthy a then a else b)"

text \<open>
  \<^verbatim>\<open>v.k\<close> for the property names this program reads: \<^verbatim>\<open>conversation_id\<close>,
  \<^verbatim>\<open>transcript\<close>, \<^verbatim>\<open>audio_url\<close>, \<^verbatim>\<open>pitch\<close>, \<^verbatim>\<open>suggestions\<close>, \<^verbatim>\<open>response\<close>,
  \<^verbatim>\<open>results\<close>, \<^verbatim>\<open>timestamp\<close>, \<^verbatim>\<open>text\<close> and \<^verbatim>\<open>length\<close>. Reading a property of
  \<^verbatim>\<open>null\<close> or \<^verbatim>\<open>undefined\<close> throws a TypeError. No prototype defines any of these names
  except \<^verbatim>\<open>length\<close> of strings and arrays, so on every other value the result is the own
  property, or \<^verbatim>\<open>undefined\<close>. Where \<^verbatim>\<open>JSON.parse\<close> met a name twice, the later value
  stands.
\<close>

fun get_prop :: "jsval \<Rightarrow> string \<Rightarrow> js_error + jsval" where
  "get_prop Undefined k = Inl TypeError"
| "get_prop Null k = Inl TypeError"
| "get_prop (Bool b) k = Inr Undefined"
| "get_prop (Num n) k = Inr Undefined"
| "get_prop (Str s) k = Inr (if k = ''length'' then Num (Fin (real (length s))) else Undefined)"
| "get_prop (Arr xs) k = Inr (if k = ''length'' then Num (Fin (real (length xs))) else Undefined)"
| "get_prop (Obj kvs) k = Inr (case map_of (rev kvs) k of Some v \<Rightarrow> v | None \<Rightarrow> Undefined)"

text \<open>
  \<^verbatim>\<open>ToString\<close>, which a template literal applies to each substitution. An array is joined
  with commas, \<^verbatim>\<open>null\<close> and \<^verbatim>\<open>undefined\<close> elements giving the empty string. A parsed
  object has \<^verbatim>\<open>Object.prototype.toString\<close> unless it carries an own property of that name,
  which is then never callable and the conversion throws.
\<close>

fun to_string :: "(number \<Rightarrow> string) \<Rightarrow> jsval \<Rightarrow> js_error + string"
  and join :: "(number \<Rightarrow> string) \<Rightarrow> jsval list \<Rightarrow> js_error + string" where
  "to_string ns Undefined = Inr ''undefined''"
| "to_string ns Null = Inr ''null''"
| "to_string ns (Bool b) = Inr (if b then ''true'' else ''false'')"
| "to_string ns (Num n) = Inr (ns n)"
| "to_string ns (Str s) = Inr s"
| "to_string ns (Arr xs) = join ns xs"
| "to_string ns (Obj kvs) =
     (if ''toString'' \<in> set (map fst kvs) then Inl TypeError else Inr ''[object Object]'')"
| "join ns [] = Inr []"
| "join ns [x] = (if x = Undefined \<or> x = Null then Inr [] else to_string ns x)"
| "join ns (x # y # ys) =
     (case (if x = Undefined \<or> x = Null then Inr [] else to_string ns x) of
        Inl e \<Rightarrow> Inl e
      | Inr s \<Rightarrow> (case join ns (y # ys) of Inl e \<Rightarrow> Inl e | Inr t \<Rightarrow> Inr (s @ '','' @ t)))"

text \<open>
  \<^verbatim>\<open>ToNumber\<close>. An array or object is first made primitive, which for parsed values comes
  to its text.
\<close>

fun to_number :: "js_env \<Rightarrow> jsval \<Rightarrow> js_error + number" where
  "to_number env Undefined = Inr NaN"
| "to_number env Null = Inr (Fin 0)"
| "to_number env (Bool b) = Inr (Fin (if b then 1 else 0))"
| "to_number env (Num n) = Inr n"
| "to_number env (Str s) = Inr (string_to_number env s)"
| "to_number env v =
     (case to_string (number_to_string env) v of
        Inl e \<Rightarrow> Inl e
      | Inr s \<Rightarrow> Inr (string_to_number env s))"

text \<open>
  \<^verbatim>\<open>s.trim()\<close> removes white space and line terminators from both ends; of those, the
  characters that fit the eight-bit \<open>char\<close> are tab, line feed, vertical tab, form feed,
  carriage return, space and the no-break space.
\<close>

definition is_space :: "char \<Rightarrow> bool" where
  "is_space c = (of_char c \<in> {9, 10, 11, 12, 13, 32, 160 :: nat})"

definition trim :: "string \<Rightarrow> string" where
  "trim s = rev (dropWhile is_space (rev (dropWhile is_space s)))"

section \<open>The network\<close>

text \<open>
  A request as \<^verbatim>\<open>fetch\<close> receives it. \<open>JsonText v\<close> is the text \<^verbatim>\<open>JSON.stringify(v)\<close>.
\<close>

datatype js_file = File (file_name: string) (file_bytes: string)

datatype http_body = NoBody | FormData "(string \<times> js_file) list" | JsonText jsval

record request =
  http_method :: string
  url :: string
  headers :: "(string \<times> string) list"
  body :: http_body

text \<open>
  What one call settles to, seen from the two awaits \<^verbatim>\<open>await fetch(..)\<close> and
  \<^verbatim>\<open>await res.json()\<close>: the first promise rejects (network failure), or it resolves to a
  response with a status whose body either parses (\<open>Some\<close> of the parsed value) or makes
  \<^verbatim>\<open>res.json()\<close> reject. No state is written between the two awaits, so they are one step.
  A call that never settles is the absence of that step.
\<close>

datatype fetch_result = Rejected | Response (status: nat) (parsed: "jsval option")

text \<open>\<^verbatim>\<open>res.ok\<close>\<close>

definition ok :: "nat \<Rightarrow> bool" where
  "ok st = (200 \<le> st \<and> st \<le> 299)"

definition API_BASE_URL :: string where
  "API_BASE_URL = ''https://ai-call-auditor-production.up.railway.app''"

section \<open>UploadPage\<close>

record upload_state =
  audioFile :: "js_file option"
  pitchFile :: "js_file option"
  loading :: bool
  error :: string

text \<open>
  The \<^verbatim>\<open>useState\<close> initial values. A file input's \<^verbatim>\<open>e.target.files[0]\<close> is a File object
  (always truthy) or \<^verbatim>\<open>undefined\<close>; \<open>None\<close> stands for \<^verbatim>\<open>null\<close> and \<^verbatim>\<open>undefined\<close>.
\<close>

definition UploadPage_init :: upload_state where
  "UploadPage_init = \<lparr>audioFile = None, pitchFile = None, loading = False, error = []\<rparr>"

text \<open>The request of lines 21 to 28.\<close>

definition upload_request :: "js_file \<Rightarrow> js_file \<Rightarrow> request" where
  "upload_request a p =
     \<lparr>http_method = ''POST'', url = API_BASE_URL @ ''/upload'', headers = [],
      body = FormData [(''audio'', a), (''pitch'', p)]\<rparr>"

text \<open>
  \<^verbatim>\<open>handleSubmit\<close> up to its first await (lines 14 to 28): the new state, and the request
  handed to \<^verbatim>\<open>fetch\<close> if one was.
\<close>

definition handleSubmit_begin :: "upload_state \<Rightarrow> upload_state \<times> request option" where
  "handleSubmit_begin s =
     (let s1 = s\<lparr>upload_state.error := []\<rparr> in
      case (audioFile s, pitchFile s) of
        (Some a, Some p) \<Rightarrow> (s1\<lparr>upload_state.loading := True\<rparr>, Some (upload_request a p))
      | _ \<Rightarrow> (s1\<lparr>upload_state.error := ''Please upload both audio and pitch files.''\<rparr>, None))"

text \<open>
  The rest of the \<^verbatim>\<open>try\<close> block once the call has settled (lines 29 to 31): the path handed
  to \<^verbatim>\<open>navigate\<close>, or the exception thrown.
\<close>

definition handleSubmit_try :: "js_env \<Rightarrow> fetch_result \<Rightarrow> js_error + string" where
  "handleSubmit_try env r =
     (case r of
        Rejected \<Rightarrow> Inl FetchRejected
      | Response st b \<Rightarrow>
          if \<not> ok st then Inl UploadFailed
          else (case b of
                  None \<Rightarrow> Inl JsonRejected
                | Some data \<Rightarrow>
                    (case get_prop data ''conversation_id'' of
                       Inl e \<Rightarrow> Inl e
                     | Inr v \<Rightarrow>
                         (case to_string (number_to_string env) (js_or v (Str ''demo123'')) of
                            Inl e \<Rightarrow> Inl e
                          | Inr c \<Rightarrow> Inr (''/review/'' @ c)))))"

text \<open>
  \<^verbatim>\<open>handleSubmit\<close> from the settling of the call to its end, \<^verbatim>\<open>catch\<close> and \<^verbatim>\<open>finally\<close>
  included (lines 29 to 36): the new state and the path navigated to, if any.
\<close>

definition handleSubmit_settle ::
  "js_env \<Rightarrow> fetch_result \<Rightarrow> upload_state \<Rightarrow> upload_state \<times> string option" where
  "handleSubmit_settle env r s =
     (case handleSubmit_try env r of
        Inr path \<Rightarrow> (s\<lparr>upload_state.loading := False\<rparr>, Some path)
      | Inl e \<Rightarrow>
          (s\<lparr>upload_state.error := ''Upload failed. Please try again.'',
             upload_state.loading := False\<rparr>, None))"

text \<open>
  One whole submit whose call settles to \<open>r\<close>: the final state, the requests issued and the
  path navigated to.
\<close>

definition handleSubmit ::
  "js_env \<Rightarrow> fetch_result \<Rightarrow> upload_state \<Rightarrow> upload_state \<times> request list \<times> string option" where
  "handleSubmit env r s =
     (case handleSubmit_begin s of
        (s1, None) \<Rightarrow> (s1, [], None)
      | (s1, Some req) \<Rightarrow>
          (case handleSubmit_settle env r s1 of (s2, nav) \<Rightarrow> (s2, [req], nav)))"

text \<open>What \<^verbatim>\<open>UploadPage\<close> renders of its state (lines 51 to 54).\<close>

record upload_view =
  error_text :: "string option"
  submit_disabled :: bool
  submit_label :: string

definition UploadPage_render :: "upload_state \<Rightarrow> upload_view" where
  "UploadPage_render s =
     \<lparr>error_text = (if upload_state.error s \<noteq> [] then Some (upload_state.error s) else None),
      submit_disabled = upload_state.loading s,
      submit_label = (if upload_state.loading s then ''Uploading...'' else ''Upload & Analyze'')\<rparr>"

section \<open>ReviewPage\<close>

text \<open>
  The element behind \<^verbatim>\<open>audioRef.current\<close>, as far as the program touches it: the value
  of \<^verbatim>\<open>src\<close> it was rendered with, the number last assigned to \<^verbatim>\<open>currentTime\<close>, and
  whether \<^verbatim>\<open>play()\<close> has been called. Which position the browser then seeks to, and
  whether it can play, is not this program's.
\<close>

record audio =
  src :: jsval
  currentTime :: real
  playing :: bool

text \<open>
  The assignment \<^verbatim>\<open>el.currentTime = v\<close>. The property is a double of the media element's
  interface: the value assigned is converted with \<^verbatim>\<open>ToNumber\<close>, and unless the result is
  finite the assignment throws a TypeError and the element is left as it was.
\<close>

definition set_currentTime :: "js_env \<Rightarrow> jsval \<Rightarrow> audio \<Rightarrow> js_error + audio" where
  "set_currentTime env v a =
     (case to_number env v of
        Inl e \<Rightarrow> Inl e
      | Inr (Fin x) \<Rightarrow> Inr (a\<lparr>currentTime := x\<rparr>)
      | Inr n \<Rightarrow> Inl TypeError)"

record chat_message =
  role :: string
  content :: jsval

text \<open>
  The component's \<^verbatim>\<open>useState\<close> and \<^verbatim>\<open>useRef\<close> cells. The collections hold whatever
  the responses carried, so they are values, not lists.
\<close>

record review_state =
  transcript :: jsval
  audioUrl :: jsval
  pitch :: jsval
  suggestions :: jsval
  loading :: bool
  error :: string
  chatInput :: string
  chatHistory :: "chat_message list"
  chatLoading :: bool
  searchInput :: string
  searchResults :: jsval
  searchLoading :: bool
  audioRef :: "audio option"

definition ReviewPage_init :: review_state where
  "ReviewPage_init =
     \<lparr>transcript = Arr [], audioUrl = Str [], pitch = Arr [], suggestions = Arr [],
      loading = True, error = [], chatInput = [], chatHistory = [], chatLoading = False,
      searchInput = [], searchResults = Arr [], searchLoading = False, audioRef = None\<rparr>"

definition GET :: "string \<Rightarrow> request" where
  "GET u = \<lparr>http_method = ''GET'', url = u, headers = [], body = NoBody\<rparr>"

definition POST_json :: "string \<Rightarrow> jsval \<Rightarrow> request" where
  "POST_json u v =
     \<lparr>http_method = ''POST'', url = u, headers = [(''Content-Type'', ''application/json'')],
      body = JsonText v\<rparr>"

text \<open>
  \<^verbatim>\<open>const res = await fetch(..); const data = await res.json();\<close> as the review page
  writes it everywhere, with no look at \<^verbatim>\<open>res.ok\<close>: the parsed body, or the rejection.
\<close>

fun json_of :: "fetch_result \<Rightarrow> js_error + jsval" where
  "json_of Rejected = Inl FetchRejected"
| "json_of (Response st None) = Inl JsonRejected"
| "json_of (Response st (Some data)) = Inr data"

subsection \<open>fetchData\<close>

text \<open>The await at which \<^verbatim>\<open>fetchData\<close> is suspended.\<close>

datatype load_phase = AwaitTranscript | AwaitPitch | AwaitSuggestions

text \<open>Lines 84 to 88: up to the first await, with the one request issued.\<close>

definition fetchData_begin :: "string \<Rightarrow> review_state \<Rightarrow> review_state \<times> request" where
  "fetchData_begin conversationId s =
     (s\<lparr>loading := True, error := []\<rparr>, GET (API_BASE_URL @ ''/transcript/'' @ conversationId))"

text \<open>Lines 100 to 104: \<^verbatim>\<open>catch\<close>, then \<^verbatim>\<open>finally\<close>.\<close>

definition fetchData_catch :: "review_state \<Rightarrow> review_state" where
  "fetchData_catch s = s\<lparr>error := ''Failed to load review data.'', loading := False\<rparr>"

text \<open>
  \<^verbatim>\<open>fetchData\<close> from the settling of the call it is suspended at to its next await, or to
  its end: the new state and, if it suspends again, where and with which request.
\<close>

fun fetchData_resume ::
  "string \<Rightarrow> load_phase \<Rightarrow> fetch_result \<Rightarrow> review_state
     \<Rightarrow> review_state \<times> (load_phase \<times> request) option" where
  "fetchData_resume conversationId AwaitTranscript r s =
     (case json_of r of
        Inl e \<Rightarrow> (fetchData_catch s, None)
      | Inr tData \<Rightarrow>
          (case get_prop tData ''transcript'' of
             Inl e \<Rightarrow> (fetchData_catch s, None)
           | Inr t \<Rightarrow>
               (case get_prop tData ''audio_url'' of
                  Inl e \<Rightarrow> (fetchData_catch (s\<lparr>transcript := js_or t (Arr [])\<rparr>), None)
                | Inr a \<Rightarrow>
                    (s\<lparr>transcript := js_or t (Arr []), audioUrl := js_or a (Str [])\<rparr>,
                     Some (AwaitPitch, GET (API_BASE_URL @ ''/pitch/'' @ conversationId))))))"
| "fetchData_resume conversationId AwaitPitch r s =
     (case json_of r of
        Inl e \<Rightarrow> (fetchData_catch s, None)
      | Inr pData \<Rightarrow>
          (case get_prop pData ''pitch'' of
             Inl e \<Rightarrow> (fetchData_catch s, None)
           | Inr p \<Rightarrow>
               (s\<lparr>pitch := js_or p (Arr [])\<rparr>,
                Some (AwaitSuggestions,
                      GET (API_BASE_URL @ ''/suggestions/'' @ conversationId)))))"
| "fetchData_resume conversationId AwaitSuggestions r s =
     (case json_of r of
        Inl e \<Rightarrow> (fetchData_catch s, None)
      | Inr sData \<Rightarrow>
          (case get_prop sData ''suggestions'' of
             Inl e \<Rightarrow> (fetchData_catch s, None)
           | Inr g \<Rightarrow> (s\<lparr>suggestions := js_or g (Arr []), loading := False\<rparr>, None)))"

text \<open>
  \<^verbatim>\<open>fetchData\<close> driven from a suspension through the settlements that arrive, in order:
  the state reached and the further requests issued. When the settlements run out the
  call in flight never settles and the function stays suspended.
\<close>

fun fetchData_run ::
  "string \<Rightarrow> load_phase \<Rightarrow> fetch_result list \<Rightarrow> review_state
     \<Rightarrow> review_state \<times> request list" where
  "fetchData_run conversationId ph [] s = (s, [])"
| "fetchData_run conversationId ph (r # rs) s =
     (case fetchData_resume conversationId ph r s of
        (s', None) \<Rightarrow> (s', [])
      | (s', Some (ph', q)) \<Rightarrow>
          (case fetchData_run conversationId ph' rs s' of (s'', qs) \<Rightarrow> (s'', q # qs)))"

text \<open>One whole load: the effect's call of \<^verbatim>\<open>fetchData()\<close> (line 106).\<close>

definition fetchData ::
  "string \<Rightarrow> fetch_result list \<Rightarrow> review_state \<Rightarrow> review_state \<times> request list" where
  "fetchData conversationId rs s =
     (case fetchData_begin conversationId s of
        (s0, q0) \<Rightarrow>
          (case fetchData_run conversationId AwaitTranscript rs s0 of
             (s', qs) \<Rightarrow> (s', q0 # qs)))"

subsection \<open>handleChatSubmit\<close>


text \<open>
  The function handed to \<^verbatim>\<open>setChatHistory\<close> on line 122,
  \<^verbatim>\<open>(h) => [...h, { role: 'assistant', content: data.response || 'No response.' }]\<close>.
  It reads \<^verbatim>\<open>data.response\<close> when it is run, and React runs it while it renders, not
  in the course of the handler's \<^verbatim>\<open>try\<close> block: what it throws, it throws inside
  React's rendering.
\<close>

definition assistant_updater ::
  "jsval \<Rightarrow> chat_message list \<Rightarrow> js_error + chat_message list" where
  "assistant_updater data h =
     (case get_prop data ''response'' of
        Inl e \<Rightarrow> Inl e
      | Inr v \<Rightarrow> Inr (h @ [\<lparr>role = ''assistant'', content = js_or v (Str ''No response.'')\<rparr>]))"

text \<open>
  Lines 121 to 128: from the settling of the call to the end, as the cells are written. A
  rejected \<^verbatim>\<open>fetch\<close> or \<^verbatim>\<open>json()\<close> goes to the \<^verbatim>\<open>catch\<close>, whose entry is appended.
  Otherwise the updater of line 122 is queued and the \<^verbatim>\<open>finally\<close> writes the other two
  cells; the history becomes what the updater returns for the history as it is by then,
  and gets no entry when the updater throws.
\<close>

definition handleChatSubmit_settle :: "fetch_result \<Rightarrow> review_state \<Rightarrow> review_state" where
  "handleChatSubmit_settle r s =
     (case json_of r of
        Inl e \<Rightarrow>
          s\<lparr>chatHistory :=
               chatHistory s @ [\<lparr>role = ''assistant'', content = Str ''Error getting response.''\<rparr>],
            chatInput := [],
            chatLoading := False\<rparr>
      | Inr data \<Rightarrow>
          (case assistant_updater data (chatHistory s) of
             Inl e \<Rightarrow> s\<lparr>chatInput := [], chatLoading := False\<rparr>
           | Inr h \<Rightarrow> s\<lparr>chatHistory := h, chatInput := [], chatLoading := False\<rparr>))"

text \<open>
  Whether the settling takes the page down: an exception of the updater is thrown inside
  React's rendering, and the component has no error boundary, so React unmounts the page.
\<close>

definition handleChatSubmit_unmounts :: "fetch_result \<Rightarrow> bool" where
  "handleChatSubmit_unmounts r =
     (case json_of r of
        Inl e \<Rightarrow> False
      | Inr data \<Rightarrow> (case assistant_updater data [] of Inl e \<Rightarrow> True | Inr h \<Rightarrow> False))"


subsection \<open>handleSearchSubmit\<close>

text \<open>Lines 133 to 141: up to the first await.\<close>

definition handleSearchSubmit_begin ::
  "string \<Rightarrow> review_state \<Rightarrow> review_state \<times> request option" where
  "handleSearchSubmit_begin conversationId s =
     (if trim (searchInput s) = [] then (s, None)
      else
        (s\<lparr>searchLoading := True\<rparr>,
         Some (POST_json (API_BASE_URL @ ''/search/'' @ conversationId)
                 (Obj [(''query'', Str (searchInput s))]))))"

text \<open>Lines 142 to 148: from the settling of the call to the end.\<close>

definition handleSearchSubmit_settle :: "fetch_result \<Rightarrow> review_state \<Rightarrow> review_state" where
  "handleSearchSubmit_settle r s =
     (case json_of r of
        Inl e \<Rightarrow> s\<lparr>searchResults := Arr [], searchLoading := False\<rparr>
      | Inr data \<Rightarrow>
          (case get_prop data ''results'' of
             Inl e \<Rightarrow> s\<lparr>searchResults := Arr [], searchLoading := False\<rparr>
           | Inr v \<Rightarrow> s\<lparr>searchResults := js_or v (Arr []), searchLoading := False\<rparr>))"

definition handleSearchSubmit ::
  "string \<Rightarrow> fetch_result \<Rightarrow> review_state \<Rightarrow> review_state \<times> request list" where
  "handleSearchSubmit conversationId r s =
     (case handleSearchSubmit_begin conversationId s of
        (s1, None) \<Rightarrow> (s1, [])
      | (s1, Some q) \<Rightarrow> (handleSearchSubmit_settle r s1, [q]))"

subsection \<open>jumpToTimestamp\<close>

text \<open>
  Lines 152 to 157. An element is an object, hence truthy whenever the ref holds one. When
  the assignment of line 154 throws, \<^verbatim>\<open>play()\<close> on line 155 is not reached; the exception
  leaves the click handler and nothing has changed.
\<close>

definition jumpToTimestamp :: "js_env \<Rightarrow> jsval \<Rightarrow> review_state \<Rightarrow> review_state" where
  "jumpToTimestamp env seconds s =
     (case audioRef s of
        None \<Rightarrow> s
      | Some a \<Rightarrow>
          (case set_currentTime env seconds a of
             Inl e \<Rightarrow> s
           | Inr a' \<Rightarrow> s\<lparr>audioRef := Some (a'\<lparr>playing := True\<rparr>)\<rparr>))"

text \<open>
  The click handler of a result's button (line 244), which reads \<^verbatim>\<open>result.timestamp\<close> when
  it runs. An exception in an event handler leaves the state as it is.
\<close>

definition result_onClick :: "js_env \<Rightarrow> jsval \<Rightarrow> review_state \<Rightarrow> review_state" where
  "result_onClick env result s =
     (case get_prop result ''timestamp'' of
        Inl e \<Rightarrow> s
      | Inr seconds \<Rightarrow> jumpToTimestamp env seconds s)"

subsection \<open>Rendering\<close>

text \<open>
  \<^verbatim>\<open>v > 0\<close>. Both sides are made primitive, an array or object through its text, and
  compared as numbers; a comparison with NaN is false.
\<close>

fun positive :: "number \<Rightarrow> bool" where
  "positive (Fin r) = (0 < r)"
| "positive PosInf = True"
| "positive NegInf = False"
| "positive NaN = False"

fun js_gt_zero :: "js_env \<Rightarrow> jsval \<Rightarrow> js_error + bool" where
  "js_gt_zero env Undefined = Inr False"
| "js_gt_zero env Null = Inr False"
| "js_gt_zero env (Bool b) = Inr b"
| "js_gt_zero env (Num n) = Inr (positive n)"
| "js_gt_zero env (Str s) = Inr (positive (string_to_number env s))"
| "js_gt_zero env v =
     (case to_string (number_to_string env) v of
        Inl e \<Rightarrow> Inl e
      | Inr s \<Rightarrow> Inr (positive (string_to_number env s)))"

text \<open>The first exception of a list of evaluations, or all their values.\<close>

fun collect :: "(js_error + 'a) list \<Rightarrow> js_error + 'a list" where
  "collect [] = Inr []"
| "collect (Inl e # rs) = Inl e"
| "collect (Inr v # rs) = (case collect rs of Inl e \<Rightarrow> Inl e | Inr vs \<Rightarrow> Inr (v # vs))"

text \<open>
  \<^verbatim>\<open>x.map(f)\<close>. Only an array has a callable \<^verbatim>\<open>map\<close>: on any other parsed value the
  property is missing or is data, and the call throws.
\<close>

fun js_map :: "(jsval \<Rightarrow> js_error + 'a) \<Rightarrow> jsval \<Rightarrow> js_error + 'a list" where
  "js_map f (Arr xs) = collect (map f xs)"
| "js_map f v = Inl TypeError"

datatype 'a listing = Placeholder | Items "'a list"

text \<open>\<^verbatim>\<open>x.length > 0 ? x.map(f) : placeholder\<close> (lines 176, 185 and 194).\<close>

definition listing_of ::
  "js_env \<Rightarrow> (jsval \<Rightarrow> js_error + 'a) \<Rightarrow> jsval \<Rightarrow> js_error + 'a listing" where
  "listing_of env f x =
     (case get_prop x ''length'' of
        Inl e \<Rightarrow> Inl e
      | Inr n \<Rightarrow>
          (case js_gt_zero env n of
             Inl e \<Rightarrow> Inl e
           | Inr b \<Rightarrow>
               if b then (case js_map f x of Inl e \<Rightarrow> Inl e | Inr ys \<Rightarrow> Inr (Items ys))
               else Inr Placeholder))"

text \<open>
  One search result as rendered (lines 241 to 249): the result its click handler closes
  over, and the two children \<^verbatim>\<open>result.timestamp\<close> and \<^verbatim>\<open>result.text\<close>.
\<close>

record search_item =
  result :: jsval
  timestamp_child :: jsval
  text_child :: jsval

definition search_item_of :: "jsval \<Rightarrow> js_error + search_item" where
  "search_item_of r =
     (case get_prop r ''timestamp'' of
        Inl e \<Rightarrow> Inl e
      | Inr t \<Rightarrow>
          (case get_prop r ''text'' of
             Inl e \<Rightarrow> Inl e
           | Inr x \<Rightarrow> Inr \<lparr>result = r, timestamp_child = t, text_child = x\<rparr>))"

text \<open>One chat entry as rendered (lines 205 to 207): the speaker's label and the content.\<close>

definition chat_entry_of :: "chat_message \<Rightarrow> string \<times> jsval" where
  "chat_entry_of msg = (if role msg = ''user'' then ''You'' else ''Coach'', content msg)"

text \<open>The part of the page under \<^verbatim>\<open>!loading && !error\<close> (lines 165 to 253).\<close>

record content_view =
  audio_src :: "jsval option"
  transcript_lines :: "jsval listing"
  pitch_steps :: "jsval listing"
  suggestion_items :: "jsval listing"
  chat_placeholder :: bool
  chat_entries :: "(string \<times> jsval) list"
  chat_value :: string
  chat_disabled :: bool
  search_value :: string
  search_disabled :: bool
  search_placeholder :: bool
  search_items :: "search_item list"

record review_view =
  loading_indicator :: bool
  error_banner :: "string option"
  page_content :: "content_view option"

text \<open>
  The elements the content block evaluates to, or the exception its evaluation throws.
  \<^verbatim>\<open>audioUrl\<close> is only ever \<^verbatim>\<open>''\<close> or a truthy value, so where it is falsy the
  expression \<^verbatim>\<open>audioUrl && ..\<close> renders nothing.
\<close>

definition content_elements :: "js_env \<Rightarrow> review_state \<Rightarrow> js_error + content_view" where
  "content_elements env s =
     (case listing_of env (\<lambda>line. get_prop line ''text'') (transcript s) of
        Inl e \<Rightarrow> Inl e
      | Inr lines \<Rightarrow>
     (case listing_of env Inr (pitch s) of
        Inl e \<Rightarrow> Inl e
      | Inr steps \<Rightarrow>
     (case listing_of env Inr (suggestions s) of
        Inl e \<Rightarrow> Inl e
      | Inr hints \<Rightarrow>
     (case get_prop (searchResults s) ''length'' of
        Inl e \<Rightarrow> Inl e
      | Inr n \<Rightarrow>
     (case js_map search_item_of (searchResults s) of
        Inl e \<Rightarrow> Inl e
      | Inr items \<Rightarrow>
          Inr \<lparr>audio_src = (if truthy (audioUrl s) then Some (audioUrl s) else None),
               transcript_lines = lines,
               pitch_steps = steps,
               suggestion_items = hints,
               chat_placeholder = (length (chatHistory s) = 0),
               chat_entries = map chat_entry_of (chatHistory s),
               chat_value = chatInput s,
               chat_disabled = chatLoading s,
               search_value = searchInput s,
               search_disabled = searchLoading s,
               search_placeholder = (n = Num (Fin 0)),
               search_items = items\<rparr>)))))"

text \<open>
  React accepts text, numbers, booleans, \<^verbatim>\<open>null\<close>, \<^verbatim>\<open>undefined\<close> and arrays of those as
  children; given an object it throws while it renders.
\<close>

fun valid_child :: "jsval \<Rightarrow> bool" where
  "valid_child (Obj kvs) = False"
| "valid_child (Arr xs) = list_all valid_child xs"
| "valid_child v = True"

fun listing_children :: "jsval listing \<Rightarrow> jsval list" where
  "listing_children Placeholder = []"
| "listing_children (Items xs) = xs"

definition content_children :: "content_view \<Rightarrow> jsval list" where
  "content_children c =
     listing_children (transcript_lines c) @ listing_children (pitch_steps c)
     @ listing_children (suggestion_items c) @ map snd (chat_entries c)
     @ concat (map (\<lambda>i. [timestamp_child i, text_child i]) (search_items c))"

text \<open>
  The exception, if any, that React meets when it sets the \<^verbatim>\<open>src\<close> attribute of the
  \<^verbatim>\<open>audio\<close> element (line 169): a value that is not a string is converted to text, which
  throws for an object that cannot be converted.
\<close>

definition src_error :: "js_env \<Rightarrow> jsval option \<Rightarrow> js_error option" where
  "src_error env u =
     (case u of
        None \<Rightarrow> None
      | Some v \<Rightarrow> (case to_string (number_to_string env) v of Inl e \<Rightarrow> Some e | Inr t \<Rightarrow> None))"

text \<open>
  What \<^verbatim>\<open>ReviewPage\<close> renders of its state (lines 159 to 256), or the exception that
  takes the page down: the component has no error boundary.
\<close>

definition ReviewPage_render :: "js_env \<Rightarrow> review_state \<Rightarrow> js_error + review_view" where
  "ReviewPage_render env s =
     (let banner = (if error s \<noteq> [] then Some (error s) else None) in
      if \<not> loading s \<and> error s = [] then
        (case content_elements env s of
           Inl e \<Rightarrow> Inl e
         | Inr c \<Rightarrow>
             (case src_error env (audio_src c) of
                Some e \<Rightarrow> Inl e
              | None \<Rightarrow>
                  if list_all valid_child (content_children c)
                  then Inr \<lparr>loading_indicator = loading s, error_banner = banner,
                            page_content = Some c\<rparr>
                  else Inl InvalidChild))
      else Inr \<lparr>loading_indicator = loading s, error_banner = banner, page_content = None\<rparr>)"

text \<open>
  After a render React stores the mounted \<^verbatim>\<open>audio\<close> element in \<^verbatim>\<open>audioRef.current\<close> and
  resets it to \<^verbatim>\<open>null\<close> when the element is not part of the page (lines 167 to 171).
\<close>

definition attach_audioRef :: "js_env \<Rightarrow> review_state \<Rightarrow> review_state" where
  "attach_audioRef env s =
     s\<lparr>audioRef :=
         (case ReviewPage_render env s of
            Inl e \<Rightarrow> None
          | Inr v \<Rightarrow>
              (case page_content v of
                 None \<Rightarrow> None
               | Some c \<Rightarrow>
                   (case audio_src c of
                      None \<Rightarrow> None
                    | Some u \<Rightarrow>
                        (case audioRef s of
                           None \<Rightarrow> Some \<lparr>src = u, currentTime = 0, playing = False\<rparr>
                         | Some a \<Rightarrow> Some (a\<lparr>src := u\<rparr>)))))\<rparr>"

section \<open>Outcomes of a call, as the specification names them\<close>

text \<open>
  The failures of the upload call as the specification lists them: a status outside 200 to
  299, a network failure, or a body that is not JSON.
\<close>

fun upload_call_fails :: "fetch_result \<Rightarrow> bool" where
  "upload_call_fails Rejected = True"
| "upload_call_fails (Response st b) = (\<not> ok st \<or> b = None)"

text \<open>
  A call of the review page fails when the network fails or the body is not JSON; the
  review page never looks at the status.
\<close>

fun call_fails :: "fetch_result \<Rightarrow> bool" where
  "call_fails Rejected = True"
| "call_fails (Response st None) = True"
| "call_fails (Response st (Some data)) = False"

text \<open>
  A call whose body parsed to a value with properties to read: anything but \<^verbatim>\<open>null\<close>
  (and \<^verbatim>\<open>undefined\<close>, which no body parses to).
\<close>

fun settles_ok :: "fetch_result \<Rightarrow> bool" where
  "settles_ok Rejected = False"
| "settles_ok (Response st None) = False"
| "settles_ok (Response st (Some data)) = (data \<noteq> Null \<and> data \<noteq> Undefined)"

text \<open>A search call that succeeds with a \<^verbatim>\<open>results\<close> field that is absent, or empty.\<close>

fun results_absent_or_empty :: "fetch_result \<Rightarrow> bool" where
  "results_absent_or_empty (Response st (Some data)) =
     (get_prop data ''results'' = Inr Undefined \<or> get_prop data ''results'' = Inr (Arr []))"
| "results_absent_or_empty r = False"

text \<open>The three requests of a load, in the order of the source.\<close>

definition load_requests :: "string \<Rightarrow> request list" where
  "load_requests conversationId =
     [GET (API_BASE_URL @ ''/transcript/'' @ conversationId),
      GET (API_BASE_URL @ ''/pitch/'' @ conversationId),
      GET (API_BASE_URL @ ''/suggestions/'' @ conversationId)]"

text \<open>
  The review page with nothing to show: no player, the three placeholders, an empty chat
  and an empty search.
\<close>

definition placeholders_view :: review_view where
  "placeholders_view =
     \<lparr>loading_indicator = False, error_banner = None,
      page_content = Some
        \<lparr>audio_src = None, transcript_lines = Placeholder, pitch_steps = Placeholder,
         suggestion_items = Placeholder, chat_placeholder = True, chat_entries = [],
         chat_value = [], chat_disabled = False, search_value = [], search_disabled = False,
         search_placeholder = True, search_items = []\<rparr>\<rparr>"

section \<open>Example inputs\<close>

text \<open>An upload form with both files chosen, at rest.\<close>

definition both_files :: upload_state where
  "both_files =
     \<lparr>audioFile = Some (File ''call.mp3'' ''RIFF''), pitchFile = Some (File ''pitch.pdf'' ''%PDF''),
      loading = False, error = []\<rparr>"



text \<open>
  The specification's search result, a passage at 42 seconds, and two results a server can
  as well send: one with no \<^verbatim>\<open>timestamp\<close>, and one whose \<^verbatim>\<open>timestamp\<close> was written
  \<^verbatim>\<open>1e999\<close>, which parses to infinity.
\<close>

definition price_result :: jsval where
  "price_result = Obj [(''timestamp'', Num (Fin 42)), (''text'', Str ''price objection'')]"

definition price_item :: search_item where
  "price_item =
     \<lparr>result = price_result, timestamp_child = Num (Fin 42),
      text_child = Str ''price objection''\<rparr>"

definition untimed_result :: jsval where
  "untimed_result = Obj [(''text'', Str ''price objection'')]"

definition endless_result :: jsval where
  "endless_result = Obj [(''timestamp'', Num PosInf), (''text'', Str ''price objection'')]"

text \<open>The audio element as React mounts it for the recording \<^verbatim>\<open>call.mp3\<close>.\<close>

definition player :: audio where
  "player = \<lparr>src = Str ''call.mp3'', currentTime = 0, playing = False\<rparr>"

text \<open>
  The cells of a review page once a load has answered with the recording \<^verbatim>\<open>call.mp3\<close>
  and empty collections, \<^verbatim>\<open>price\<close> has been typed and the search has answered with the
  given results; and the same where the load answered with no recording.
\<close>

definition found_cells :: "jsval list \<Rightarrow> review_state" where
  "found_cells rs =
     fst (handleSearchSubmit ''demo123'' (Response 200 (Some (Obj [(''results'', Arr rs)])))
            ((attach_audioRef plain_env
                (fst (fetchData ''demo123''
                        [Response 200 (Some (Obj [(''audio_url'', Str ''call.mp3'')])),
                         Response 200 (Some (Obj [])), Response 200 (Some (Obj []))]
                        ReviewPage_init)))
             \<lparr>searchInput := ''price''\<rparr>))"

definition silent_cells :: "jsval list \<Rightarrow> review_state" where
  "silent_cells rs =
     fst (handleSearchSubmit ''demo123'' (Response 200 (Some (Obj [(''results'', Arr rs)])))
            ((attach_audioRef plain_env
                (fst (fetchData ''demo123''
                        [Response 200 (Some (Obj [])), Response 200 (Some (Obj [])),
                         Response 200 (Some (Obj []))]
                        ReviewPage_init)))
             \<lparr>searchInput := ''price''\<rparr>))"

text \<open>What the content block of these pages evaluates to, for the one result at 42 seconds.\<close>

definition price_content :: content_view where
  "price_content =
     \<lparr>audio_src = Some (Str ''call.mp3''), transcript_lines = Placeholder,
      pitch_steps = Placeholder, suggestion_items = Placeholder, chat_placeholder = True,
      chat_entries = [], chat_value = [], chat_disabled = False, search_value = ''price'',
      search_disabled = False, search_placeholder = False, search_items = [price_item]\<rparr>"

text \<open>The same page before the search was sent.\<close>

definition searching_price :: review_state where
  "searching_price =
     ReviewPage_init\<lparr>loading := False, audioUrl := Str ''call.mp3'', searchInput := ''price''\<rparr>"

text \<open>The three answers of the specification's example load.\<close>

definition transcript_body :: jsval where
  "transcript_body = Obj [(''transcript'', Arr [Obj [(''text'', Str ''hi'')]])]"

definition pitch_body :: jsval where
  "pitch_body = Obj [(''pitch'', Arr [Str ''step1''])]"

definition suggestions_body :: jsval where
  "suggestions_body = Obj [(''suggestions'', Arr [Str ''say X''])]"

text \<open>The body of an error answer that carries none of the fields.\<close>

definition not_found_body :: jsval where
  "not_found_body = Obj [(''detail'', Str ''Not Found'')]"

section \<open>The upload form\<close>

text \<open>
  Claim C2. A submit with the audio file, the pitch file or both unselected issues no
  network call and sets the validation message, which the form then shows. Whatever the
  network would have answered plays no part.
\<close>

theorem upload_validation:
  assumes "audioFile s = None \<or> pitchFile s = None"
  shows "handleSubmit env r s =
           (s\<lparr>upload_state.error := ''Please upload both audio and pitch files.''\<rparr>, [], None)
         \<and> snd (handleSubmit_begin s) = None
         \<and> error_text (UploadPage_render (fst (handleSubmit env r s))) =
             Some ''Please upload both audio and pitch files.''"
  using assms
  by (auto simp: handleSubmit_def handleSubmit_begin_def UploadPage_render_def Let_def
      split: option.splits)

text \<open>The freshly mounted form has no file selected; a submit there only sets the message.\<close>

theorem upload_validation_witness:
  "audioFile UploadPage_init = None
   \<and> handleSubmit plain_env Rejected UploadPage_init =
       (UploadPage_init\<lparr>upload_state.error := ''Please upload both audio and pitch files.''\<rparr>,
        [], None)"
  using upload_validation [of UploadPage_init plain_env Rejected]
  by (simp add: UploadPage_init_def)

text \<open>
  Claim C7. When both files are selected and the upload call fails (a status outside 200
  to 299, a network failure, or a body that is not JSON), the submit ends with the generic
  error message set and shown, without navigating, and with both selected files as they
  were.
\<close>

theorem upload_failure:
  assumes "audioFile s = Some a" and "pitchFile s = Some p" and "upload_call_fails r"
  shows "handleSubmit env r s =
           (s\<lparr>upload_state.error := ''Upload failed. Please try again.'',
              upload_state.loading := False\<rparr>, [upload_request a p], None)
         \<and> audioFile (fst (handleSubmit env r s)) = Some a
         \<and> pitchFile (fst (handleSubmit env r s)) = Some p
         \<and> error_text (UploadPage_render (fst (handleSubmit env r s))) =
             Some ''Upload failed. Please try again.''"
  using assms
  by (cases r)
     (auto simp: handleSubmit_def handleSubmit_begin_def handleSubmit_settle_def
        handleSubmit_try_def UploadPage_render_def split: option.splits)

text \<open>A server error answered with a JSON body: status 500 is enough for the failure.\<close>

theorem upload_failure_witness:
  "upload_call_fails (Response 500 (Some (Obj [(''conversation_id'', Str ''abc'')])))
   \<and> handleSubmit plain_env (Response 500 (Some (Obj [(''conversation_id'', Str ''abc'')])))
         both_files =
       (both_files\<lparr>upload_state.error := ''Upload failed. Please try again.''\<rparr>,
        [upload_request (File ''call.mp3'' ''RIFF'') (File ''pitch.pdf'' ''%PDF'')], None)"
proof -
  have f: "audioFile both_files = Some (File ''call.mp3'' ''RIFF'')"
    "pitchFile both_files = Some (File ''pitch.pdf'' ''%PDF'')"
    "upload_call_fails (Response 500 (Some (Obj [(''conversation_id'', Str ''abc'')])))"
    by (simp_all add: both_files_def ok_def)
  from upload_failure [OF f, of plain_env] f(3) show ?thesis
    by (simp add: both_files_def)
qed

text \<open>
  Claim C1, as the code has it. With both files selected and a 2xx answer whose body parsed:
  a \<^verbatim>\<open>conversation_id\<close> that is a non-empty string is navigated to; a missing or falsy one
  (\<^verbatim>\<open>null\<close>, \<^verbatim>\<open>false\<close>, zero, the empty string) gives the fallback \<^verbatim>\<open>demo123\<close>; and the
  body \<^verbatim>\<open>null\<close>, which has no properties to read, ends in the generic error without
  navigating.
\<close>

theorem upload_success_navigates:
  assumes "audioFile s = Some a" and "pitchFile s = Some p" and "ok st"
  shows "(\<forall>c. get_prop data ''conversation_id'' = Inr (Str c) \<and> c \<noteq> [] \<longrightarrow>
            handleSubmit env (Response st (Some data)) s =
              (s\<lparr>upload_state.error := [], upload_state.loading := False\<rparr>,
               [upload_request a p], Some (''/review/'' @ c)))
       \<and> (\<forall>v. get_prop data ''conversation_id'' = Inr v \<and> \<not> truthy v \<longrightarrow>
            handleSubmit env (Response st (Some data)) s =
              (s\<lparr>upload_state.error := [], upload_state.loading := False\<rparr>,
               [upload_request a p], Some ''/review/demo123''))
       \<and> (data = Null \<longrightarrow>
            handleSubmit env (Response st (Some data)) s =
              (s\<lparr>upload_state.error := ''Upload failed. Please try again.'',
                 upload_state.loading := False\<rparr>, [upload_request a p], None))"
  using assms
  by (auto simp: handleSubmit_def handleSubmit_begin_def handleSubmit_settle_def
      handleSubmit_try_def js_or_def)

text \<open>
  The two answers of the specification's example: \<^verbatim>\<open>{conversation_id: "abc"}\<close> leads to
  \<^verbatim>\<open>/review/abc\<close>, and \<^verbatim>\<open>{}\<close> to \<^verbatim>\<open>/review/demo123\<close>.
\<close>

theorem upload_success_navigates_witness:
  "handleSubmit plain_env (Response 200 (Some (Obj [(''conversation_id'', Str ''abc'')])))
       both_files =
     (both_files, [upload_request (File ''call.mp3'' ''RIFF'') (File ''pitch.pdf'' ''%PDF'')],
      Some ''/review/abc'')
   \<and> handleSubmit plain_env (Response 200 (Some (Obj []))) both_files =
     (both_files, [upload_request (File ''call.mp3'' ''RIFF'') (File ''pitch.pdf'' ''%PDF'')],
      Some ''/review/demo123'')"
proof -
  have f: "audioFile both_files = Some (File ''call.mp3'' ''RIFF'')"
    "pitchFile both_files = Some (File ''pitch.pdf'' ''%PDF'')" "ok 200"
    by (simp_all add: both_files_def ok_def)
  have e: "both_files\<lparr>upload_state.error := [], upload_state.loading := False\<rparr> = both_files"
    by (simp add: both_files_def)
  from upload_success_navigates [OF f, of "Obj [(''conversation_id'', Str ''abc'')]" plain_env]
  have 1: "handleSubmit plain_env
             (Response 200 (Some (Obj [(''conversation_id'', Str ''abc'')]))) both_files =
     (both_files, [upload_request (File ''call.mp3'' ''RIFF'') (File ''pitch.pdf'' ''%PDF'')],
      Some ''/review/abc'')"
    by (simp add: e)
  from upload_success_navigates [OF f, of "Obj []" plain_env]
  have 2: "handleSubmit plain_env (Response 200 (Some (Obj []))) both_files =
     (both_files, [upload_request (File ''call.mp3'' ''RIFF'') (File ''pitch.pdf'' ''%PDF'')],
      Some ''/review/demo123'')"
    by (simp add: e)
  from 1 2 show ?thesis by simp
qed

text \<open>
  Where the code leaves the claim as worded. A 200 answer with the JSON body \<^verbatim>\<open>null\<close> has
  no \<^verbatim>\<open>conversation_id\<close>, yet the client does not navigate to the fallback: it shows the
  error. And the string \<^verbatim>\<open>""\<close> sent as \<^verbatim>\<open>conversation_id\<close> is not the key navigated
  to: the fallback is.
\<close>

theorem upload_success_counterexample:
  "handleSubmit plain_env (Response 200 (Some Null)) both_files =
     (both_files\<lparr>upload_state.error := ''Upload failed. Please try again.''\<rparr>,
      [upload_request (File ''call.mp3'' ''RIFF'') (File ''pitch.pdf'' ''%PDF'')], None)
   \<and> handleSubmit plain_env (Response 200 (Some (Obj [(''conversation_id'', Str [])])))
         both_files =
     (both_files, [upload_request (File ''call.mp3'' ''RIFF'') (File ''pitch.pdf'' ''%PDF'')],
      Some ''/review/demo123'')"
  by (simp add: handleSubmit_def handleSubmit_begin_def handleSubmit_settle_def
      handleSubmit_try_def js_or_def both_files_def ok_def)

section \<open>The review load\<close>

lemma get_prop_Inl: "get_prop d k = Inl e \<longleftrightarrow> (d = Null \<or> d = Undefined) \<and> e = TypeError"
  by (cases d) auto

lemma call_fails_not_ok: "call_fails r \<Longrightarrow> \<not> settles_ok r"
  by (cases r rule: json_of.cases) auto

lemma resume_next:
  "snd (fetchData_resume cid AwaitTranscript r s) =
     (if settles_ok r then Some (AwaitPitch, GET (API_BASE_URL @ ''/pitch/'' @ cid)) else None)"
  "snd (fetchData_resume cid AwaitPitch r s) =
     (if settles_ok r then Some (AwaitSuggestions, GET (API_BASE_URL @ ''/suggestions/'' @ cid))
      else None)"
  "snd (fetchData_resume cid AwaitSuggestions r s) = None"
  by (cases r rule: json_of.cases; auto split: sum.splits simp: get_prop_Inl)+

lemma resume_fail:
  "\<not> settles_ok r \<Longrightarrow> fetchData_resume cid ph r s = (fetchData_catch s, None)"
  by (cases r rule: json_of.cases; cases ph; auto split: sum.splits simp: get_prop_Inl)

lemma resume_ok:
  assumes "settles_ok r"
  shows "\<exists>s'. fetchData_resume cid AwaitTranscript r s =
                (s', Some (AwaitPitch, GET (API_BASE_URL @ ''/pitch/'' @ cid)))"
    and "\<exists>s'. fetchData_resume cid AwaitPitch r s =
                (s', Some (AwaitSuggestions, GET (API_BASE_URL @ ''/suggestions/'' @ cid)))"
    and "\<exists>s'. fetchData_resume cid AwaitSuggestions r s = (s', None)"
  using assms
  by (cases r rule: json_of.cases; auto split: sum.splits simp: get_prop_Inl)+

lemma status_unread:
  "fetchData_resume cid ph (Response st b) s = fetchData_resume cid ph (Response st' b) s"
  by (cases ph; cases b; simp)

text \<open>
  Claim C3. When any of the three fetches of a load fails by a network error or by a body
  that is not JSON, whichever of the three it is and whatever the other two answer, the
  load ends with the one generic message set, the loading flag down, and a page that shows
  the message and none of the content.
\<close>

theorem load_failure_shows_only_error:
  assumes "call_fails rt \<or> call_fails rp \<or> call_fails rs"
  shows "error (fst (fetchData cid [rt, rp, rs] s)) = ''Failed to load review data.''
       \<and> \<not> loading (fst (fetchData cid [rt, rp, rs] s))
       \<and> ReviewPage_render env (fst (fetchData cid [rt, rp, rs] s)) =
           Inr \<lparr>loading_indicator = False, error_banner = Some ''Failed to load review data.'',
                page_content = None\<rparr>"
proof -
  let ?final = "fst (fetchData cid [rt, rp, rs] s)"
  let ?begun = "s\<lparr>loading := True, error := []\<rparr>"
  have "error ?final = ''Failed to load review data.'' \<and> \<not> loading ?final"
  proof (cases "settles_ok rt")
    case False
    then show ?thesis
      by (simp add: fetchData_def fetchData_begin_def resume_fail fetchData_catch_def
          del: fetchData_resume.simps)
  next
    case t: True
    from resume_ok(1) [OF t, of cid ?begun] obtain s1 where
      s1: "fetchData_resume cid AwaitTranscript rt ?begun =
             (s1, Some (AwaitPitch, GET (API_BASE_URL @ ''/pitch/'' @ cid)))"
      by blast
    show ?thesis
    proof (cases "settles_ok rp")
      case False
      with s1 show ?thesis
        by (simp add: fetchData_def fetchData_begin_def resume_fail fetchData_catch_def
            del: fetchData_resume.simps)
    next
      case p: True
      from resume_ok(2) [OF p, of cid s1] obtain s2 where
        s2: "fetchData_resume cid AwaitPitch rp s1 =
               (s2, Some (AwaitSuggestions, GET (API_BASE_URL @ ''/suggestions/'' @ cid)))"
        by blast
      from t p assms have "\<not> settles_ok rs"
        using call_fails_not_ok by blast
      with s1 s2 show ?thesis
        by (simp add: fetchData_def fetchData_begin_def resume_fail fetchData_catch_def
            del: fetchData_resume.simps)
    qed
  qed
  then show ?thesis
    by (simp add: ReviewPage_render_def)
qed

text \<open>
  The specification's case: the pitch fetch is cut off while transcript and suggestions
  would answer with their data.
\<close>

theorem load_failure_shows_only_error_witness:
  "call_fails Rejected
   \<and> ReviewPage_render plain_env
       (fst (fetchData ''demo123''
              [Response 200 (Some transcript_body), Rejected, Response 200 (Some suggestions_body)]
              ReviewPage_init)) =
       Inr \<lparr>loading_indicator = False, error_banner = Some ''Failed to load review data.'',
            page_content = None\<rparr>"
  using load_failure_shows_only_error
    [of "Response 200 (Some transcript_body)" Rejected "Response 200 (Some suggestions_body)"
        "''demo123''" ReviewPage_init plain_env]
  by simp

text \<open>
  Claim C8, as the code has it. The three fetches are issued one after another, in the order
  transcript, pitch, suggestions. Starting the load issues the transcript request alone;
  the pitch request is issued by the step that handles the transcript answer, and only if
  that answer was read; likewise the suggestions request after the pitch answer; nothing
  follows the suggestions answer. So a whole load issues a prefix of the three requests,
  cut after the first fetch that does not answer with a readable body.
\<close>

theorem load_fetches_in_sequence:
  "snd (fetchData_begin cid s) = GET (API_BASE_URL @ ''/transcript/'' @ cid)
   \<and> snd (fetchData_resume cid AwaitTranscript r s) =
       (if settles_ok r then Some (AwaitPitch, GET (API_BASE_URL @ ''/pitch/'' @ cid)) else None)
   \<and> snd (fetchData_resume cid AwaitPitch r s) =
       (if settles_ok r then Some (AwaitSuggestions, GET (API_BASE_URL @ ''/suggestions/'' @ cid))
        else None)
   \<and> snd (fetchData_resume cid AwaitSuggestions r s) = None
   \<and> snd (fetchData cid [] s) = [GET (API_BASE_URL @ ''/transcript/'' @ cid)]
   \<and> snd (fetchData cid [rt, rp, rs] s) =
       GET (API_BASE_URL @ ''/transcript/'' @ cid) #
         (if settles_ok rt
          then GET (API_BASE_URL @ ''/pitch/'' @ cid) #
                 (if settles_ok rp then [GET (API_BASE_URL @ ''/suggestions/'' @ cid)] else [])
          else [])"
proof -
  let ?begun = "s\<lparr>loading := True, error := []\<rparr>"
  have run: "snd (fetchData cid [rt, rp, rs] s) =
       GET (API_BASE_URL @ ''/transcript/'' @ cid) #
         (if settles_ok rt
          then GET (API_BASE_URL @ ''/pitch/'' @ cid) #
                 (if settles_ok rp then [GET (API_BASE_URL @ ''/suggestions/'' @ cid)] else [])
          else [])"
  proof (cases "settles_ok rt")
    case False
    then show ?thesis
      by (simp add: fetchData_def fetchData_begin_def resume_fail del: fetchData_resume.simps)
  next
    case t: True
    from resume_ok(1) [OF t, of cid ?begun] obtain s1 where
      s1: "fetchData_resume cid AwaitTranscript rt ?begun =
             (s1, Some (AwaitPitch, GET (API_BASE_URL @ ''/pitch/'' @ cid)))"
      by blast
    show ?thesis
    proof (cases "settles_ok rp")
      case False
      with t s1 show ?thesis
        by (simp add: fetchData_def fetchData_begin_def resume_fail del: fetchData_resume.simps)
    next
      case p: True
      from resume_ok(2) [OF p, of cid s1] obtain s2 where
        s2: "fetchData_resume cid AwaitPitch rp s1 =
               (s2, Some (AwaitSuggestions, GET (API_BASE_URL @ ''/suggestions/'' @ cid)))"
        by blast
      have "snd (fetchData_resume cid AwaitSuggestions rs s2) = None"
        by (rule resume_next(3))
      then obtain s3 where s3: "fetchData_resume cid AwaitSuggestions rs s2 = (s3, None)"
        by (metis prod.collapse)
      from t p s1 s2 s3 show ?thesis
        by (simp add: fetchData_def fetchData_begin_def del: fetchData_resume.simps)
    qed
  qed
  show ?thesis
    using run resume_next [of cid r s]
    by (simp add: fetchData_def fetchData_begin_def del: fetchData_resume.simps)
qed

text \<open>The example load, all three answering: the three requests, in order.\<close>

theorem load_fetches_in_sequence_witness:
  "snd (fetchData ''demo123''
         [Response 200 (Some transcript_body), Response 200 (Some pitch_body),
          Response 200 (Some suggestions_body)] ReviewPage_init) =
     load_requests ''demo123''"
  using load_fetches_in_sequence
    [of "''demo123''" ReviewPage_init Rejected "Response 200 (Some transcript_body)"
        "Response 200 (Some pitch_body)" "Response 200 (Some suggestions_body)"]
  by (simp add: load_requests_def transcript_body_def pitch_body_def)

text \<open>
  Where the code leaves the claim as worded. While the transcript fetch has not completed,
  neither of the other two has been issued; and when it is cut off, they never are, though
  both would have answered.
\<close>

theorem load_fetches_counterexample:
  "snd (fetchData ''demo123'' [] ReviewPage_init) =
     [GET (API_BASE_URL @ ''/transcript/demo123'')]
   \<and> snd (fetchData ''demo123''
            [Rejected, Response 200 (Some pitch_body), Response 200 (Some suggestions_body)]
            ReviewPage_init) =
     [GET (API_BASE_URL @ ''/transcript/demo123'')]"
  by (simp add: fetchData_def fetchData_begin_def)

text \<open>
  Claim C10, as the code has it. The load never reads a status: a step of it gives the same
  result for any two statuses on the same body. Whatever the three statuses, when each body
  parsed to a value other than \<^verbatim>\<open>null\<close> the load succeeds, issuing all three requests,
  storing each consumed field or its empty default, and setting no error; and when all the
  fields are absent the stored collections are empty and a freshly mounted page shows the
  placeholders.
\<close>

theorem load_ignores_status:
  assumes "get_prop d1 ''transcript'' = Inr t" and "get_prop d1 ''audio_url'' = Inr a"
    and "get_prop d2 ''pitch'' = Inr p" and "get_prop d3 ''suggestions'' = Inr g"
  shows "fetchData_resume cid ph (Response st b) s = fetchData_resume cid ph (Response st' b) s
       \<and> fetchData cid [Response st1 (Some d1), Response st2 (Some d2), Response st3 (Some d3)] s =
           (s\<lparr>transcript := js_or t (Arr []), audioUrl := js_or a (Str []),
              pitch := js_or p (Arr []), suggestions := js_or g (Arr []),
              loading := False, error := []\<rparr>, load_requests cid)
       \<and> (t = Undefined \<and> a = Undefined \<and> p = Undefined \<and> g = Undefined \<longrightarrow>
            fst (fetchData cid
                  [Response st1 (Some d1), Response st2 (Some d2), Response st3 (Some d3)] s) =
              s\<lparr>transcript := Arr [], audioUrl := Str [], pitch := Arr [], suggestions := Arr [],
                loading := False, error := []\<rparr>
            \<and> ReviewPage_render env
                (fst (fetchData cid
                  [Response st1 (Some d1), Response st2 (Some d2), Response st3 (Some d3)]
                  ReviewPage_init)) = Inr placeholders_view)"
proof -
  have run: "fetchData cid [Response st1 (Some d1), Response st2 (Some d2), Response st3 (Some d3)] s0 =
           (s0\<lparr>transcript := js_or t (Arr []), audioUrl := js_or a (Str []),
              pitch := js_or p (Arr []), suggestions := js_or g (Arr []),
              loading := False, error := []\<rparr>, load_requests cid)" for s0
    using assms by (simp add: fetchData_def fetchData_begin_def load_requests_def)
  have "ReviewPage_render env
          (ReviewPage_init\<lparr>transcript := Arr [], audioUrl := Str [], pitch := Arr [],
             suggestions := Arr [], loading := False, error := []\<rparr>) = Inr placeholders_view"
    by (simp add: ReviewPage_render_def ReviewPage_init_def content_elements_def listing_of_def
        content_children_def src_error_def placeholders_view_def)
  with run status_unread [of cid ph st b s st'] show ?thesis
    by (simp add: js_or_def)
qed

text \<open>Three 404 answers with a JSON error body: no error is set, the placeholders show.\<close>

theorem load_ignores_status_witness:
  "get_prop not_found_body ''transcript'' = Inr Undefined
   \<and> error (fst (fetchData ''demo123''
         [Response 404 (Some not_found_body), Response 404 (Some not_found_body),
          Response 404 (Some not_found_body)] ReviewPage_init)) = []
   \<and> ReviewPage_render plain_env
       (fst (fetchData ''demo123''
         [Response 404 (Some not_found_body), Response 404 (Some not_found_body),
          Response 404 (Some not_found_body)] ReviewPage_init)) = Inr placeholders_view"
proof -
  have f: "get_prop not_found_body ''transcript'' = Inr Undefined"
    "get_prop not_found_body ''audio_url'' = Inr Undefined"
    "get_prop not_found_body ''pitch'' = Inr Undefined"
    "get_prop not_found_body ''suggestions'' = Inr Undefined"
    by (simp_all add: not_found_body_def)
  note inst = load_ignores_status [OF f, of "''demo123''" AwaitTranscript 404 None
      ReviewPage_init 404 404 404 404 plain_env]
  from inst have 1: "error (fst (fetchData ''demo123''
         [Response 404 (Some not_found_body), Response 404 (Some not_found_body),
          Response 404 (Some not_found_body)] ReviewPage_init)) = []"
    by simp
  from inst have 2: "ReviewPage_render plain_env
       (fst (fetchData ''demo123''
         [Response 404 (Some not_found_body), Response 404 (Some not_found_body),
          Response 404 (Some not_found_body)] ReviewPage_init)) = Inr placeholders_view"
    by blast
  from f(1) 1 2 show ?thesis by blast
qed

text \<open>
  Where the code leaves the claim as worded. A 500 answer whose body is the JSON text
  \<^verbatim>\<open>null\<close> parses, yet the load is not treated as a success: reading
  \<^verbatim>\<open>tData.transcript\<close> throws and the generic error is set.
\<close>

theorem load_null_body_counterexample:
  "fst (fetchData ''demo123''
         [Response 500 (Some Null), Response 500 (Some Null), Response 500 (Some Null)]
         ReviewPage_init) =
     ReviewPage_init\<lparr>loading := False, error := ''Failed to load review data.''\<rparr>"
  by (simp add: fetchData_def fetchData_begin_def fetchData_catch_def ReviewPage_init_def)

section \<open>The chat\<close>




text \<open>
  A body that parsed to \<^verbatim>\<open>null\<close> is outside the statement above: the updater of line 122
  throws when React runs it, no assistant entry is appended and the page is unmounted,
  where the load and the search read the body inside their \<^verbatim>\<open>try\<close> blocks.
\<close>

lemma chat_null_body_unmounts:
  "handleChatSubmit_unmounts (Response st (Some Null))
   \<and> chatHistory (handleChatSubmit_settle (Response st (Some Null)) s) = chatHistory s"
  by (simp add: handleChatSubmit_unmounts_def handleChatSubmit_settle_def assistant_updater_def)




section \<open>The search\<close>

text \<open>
  Claim C5. For a query that is not blank, a search call that fails and one that succeeds
  with an absent or empty \<^verbatim>\<open>results\<close> field end in the same state, hence the same page:
  the results are the empty array, the one request was issued, and the error message is
  what it was before, which is none wherever the search form is on the page.
\<close>

theorem search_failure_is_no_results:
  assumes "trim (searchInput s) \<noteq> []" and "call_fails r1" and "results_absent_or_empty r2"
  shows "handleSearchSubmit cid r1 s = handleSearchSubmit cid r2 s
       \<and> handleSearchSubmit cid r2 s =
           (s\<lparr>searchResults := Arr [], searchLoading := False\<rparr>,
            [POST_json (API_BASE_URL @ ''/search/'' @ cid)
               (Obj [(''query'', Str (searchInput s))])])
       \<and> error (fst (handleSearchSubmit cid r2 s)) = error s
       \<and> ReviewPage_render env (fst (handleSearchSubmit cid r1 s)) =
           ReviewPage_render env (fst (handleSearchSubmit cid r2 s))"
proof -
  have 1: "handleSearchSubmit_settle r1 s' = s'\<lparr>searchResults := Arr [], searchLoading := False\<rparr>"
    for s'
    using assms(2) by (cases r1 rule: json_of.cases) (simp_all add: handleSearchSubmit_settle_def)
  have 2: "handleSearchSubmit_settle r2 s' = s'\<lparr>searchResults := Arr [], searchLoading := False\<rparr>"
    for s'
    using assms(3)
    by (cases r2 rule: json_of.cases) (auto simp: handleSearchSubmit_settle_def js_or_def)
  from assms(1) 1 2 show ?thesis
    by (simp add: handleSearchSubmit_def handleSearchSubmit_begin_def)
qed

text \<open>A search for \<^verbatim>\<open>price\<close>: cut off, and answered by \<^verbatim>\<open>{results: []}\<close>.\<close>

theorem search_failure_is_no_results_witness:
  "trim (searchInput searching_price) \<noteq> []
   \<and> call_fails Rejected
   \<and> results_absent_or_empty (Response 200 (Some (Obj [(''results'', Arr [])])))
   \<and> handleSearchSubmit ''demo123'' Rejected searching_price =
       handleSearchSubmit ''demo123'' (Response 200 (Some (Obj [(''results'', Arr [])])))
         searching_price
   \<and> error (fst (handleSearchSubmit ''demo123''
         (Response 200 (Some (Obj [(''results'', Arr [])]))) searching_price)) = []"
proof -
  have f: "trim (searchInput searching_price) \<noteq> []" "call_fails Rejected"
    "results_absent_or_empty (Response 200 (Some (Obj [(''results'', Arr [])])))"
    by (simp_all add: searching_price_def trim_def is_space_def)
  have e: "error searching_price = []"
    by (simp add: searching_price_def ReviewPage_init_def)
  from search_failure_is_no_results [OF f, of "''demo123''" plain_env] f e
  show ?thesis by simp
qed

section \<open>Jumping to a search result\<close>

lemma collect_Inr: "collect rs = Inr ys \<Longrightarrow> rs = map Inr ys"
proof (induction rs arbitrary: ys)
  case Nil
  then show ?case by simp
next
  case (Cons r rs)
  then show ?case by (cases r) (auto split: sum.splits)
qed

lemma js_map_Inr:
  assumes "js_map f v = Inr ys"
  shows "\<exists>xs. v = Arr xs \<and> map f xs = map Inr ys"
  using assms by (cases v) (auto dest: collect_Inr)

lemma search_item_of_Inr:
  assumes "search_item_of x = Inr i"
  shows "result i = x \<and> get_prop x ''timestamp'' = Inr (timestamp_child i)"
  using assms by (auto simp: search_item_of_def split: sum.splits)

lemma search_items_results:
  assumes "map search_item_of xs = map Inr ys"
  shows "map result ys = xs
       \<and> (\<forall>i \<in> set ys. get_prop (result i) ''timestamp'' = Inr (timestamp_child i))"
  using assms
proof (induction xs arbitrary: ys)
  case Nil
  then show ?case by simp
next
  case (Cons x xs)
  then obtain y ys' where ys: "ys = y # ys'"
    by (cases ys) auto
  with Cons.prems have "search_item_of x = Inr y" and "map search_item_of xs = map Inr ys'"
    by simp_all
  with Cons.IH [of ys'] ys show ?case
    by (auto dest: search_item_of_Inr)
qed

lemma render_content:
  assumes "ReviewPage_render env s = Inr v" and "page_content v = Some c"
  shows "content_elements env s = Inr c \<and> \<not> loading s \<and> error s = []"
  using assms
  by (auto simp: ReviewPage_render_def Let_def split: if_splits sum.splits option.splits)

lemma content_search_items:
  assumes "content_elements env s = Inr c"
  shows "js_map search_item_of (searchResults s) = Inr (search_items c)
       \<and> audio_src c = (if truthy (audioUrl s) then Some (audioUrl s) else None)"
  using assms
  by (auto simp: content_elements_def split: sum.splits)

lemma found_cells_eq:
  "found_cells rs =
     ReviewPage_init\<lparr>loading := False, audioUrl := Str ''call.mp3'', searchInput := ''price'',
       searchResults := Arr rs, audioRef := Some player\<rparr>"
  by (simp add: found_cells_def handleSearchSubmit_def handleSearchSubmit_begin_def
      handleSearchSubmit_settle_def fetchData_def fetchData_begin_def js_or_def
      attach_audioRef_def ReviewPage_render_def content_elements_def listing_of_def
      content_children_def src_error_def ReviewPage_init_def player_def trim_def is_space_def)

lemma silent_cells_eq:
  "silent_cells rs =
     ReviewPage_init\<lparr>loading := False, searchInput := ''price'', searchResults := Arr rs\<rparr>"
  by (simp add: silent_cells_def handleSearchSubmit_def handleSearchSubmit_begin_def
      handleSearchSubmit_settle_def fetchData_def fetchData_begin_def js_or_def
      attach_audioRef_def ReviewPage_render_def content_elements_def listing_of_def
      content_children_def src_error_def ReviewPage_init_def trim_def is_space_def)

lemma found_render:
  assumes "search_item_of r = Inr i" and "valid_child (timestamp_child i)"
    and "valid_child (text_child i)"
  shows "ReviewPage_render plain_env (found_cells [r]) =
           Inr \<lparr>loading_indicator = False, error_banner = None,
                page_content = Some (price_content\<lparr>search_items := [i]\<rparr>)\<rparr>"
    and "ReviewPage_render plain_env (silent_cells [r]) =
           Inr \<lparr>loading_indicator = False, error_banner = None,
                page_content = Some (price_content\<lparr>audio_src := None, search_items := [i]\<rparr>)\<rparr>"
  using assms
  by (simp_all add: found_cells_eq silent_cells_eq ReviewPage_render_def ReviewPage_init_def
      content_elements_def listing_of_def content_children_def src_error_def price_content_def)

text \<open>
  Claim C6, as the code has it. On a page that renders its content, the search results
  shown are the elements of the results array, one button each. Once React has attached the
  ref, which holds the audio element exactly when the page has an audio URL: clicking a
  result whose \<^verbatim>\<open>timestamp\<close> converts to a finite number assigns that number to the
  element's \<^verbatim>\<open>currentTime\<close> and calls \<^verbatim>\<open>play()\<close>; with no audio URL the click changes
  nothing; and a click on a result whose \<^verbatim>\<open>timestamp\<close> is missing or does not convert to a
  finite number changes nothing either, the assignment throwing before \<^verbatim>\<open>play()\<close>.
\<close>

theorem result_click_seeks_audio:
  assumes "ReviewPage_render env s = Inr v" and "page_content v = Some c"
    and "i \<in> set (search_items c)"
  shows "searchResults s = Arr (map result (search_items c))
       \<and> get_prop (result i) ''timestamp'' = Inr (timestamp_child i)
       \<and> (\<forall>x. timestamp_child i = Num (Fin x) \<longrightarrow> to_number env (timestamp_child i) = Inr (Fin x))
       \<and> (truthy (audioUrl s) \<longrightarrow>
            (\<exists>a. audioRef (attach_audioRef env s) = Some a \<and>
               (\<forall>x. to_number env (timestamp_child i) = Inr (Fin x) \<longrightarrow>
                  result_onClick env (result i) (attach_audioRef env s) =
                    (attach_audioRef env s)
                      \<lparr>audioRef := Some (a\<lparr>currentTime := x, playing := True\<rparr>)\<rparr>)))
       \<and> (\<not> truthy (audioUrl s) \<longrightarrow>
            audioRef (attach_audioRef env s) = None
            \<and> result_onClick env (result i) (attach_audioRef env s) = attach_audioRef env s)
       \<and> ((\<forall>x. to_number env (timestamp_child i) \<noteq> Inr (Fin x)) \<longrightarrow>
            result_onClick env (result i) (attach_audioRef env s) = attach_audioRef env s)"
proof -
  let ?page = "attach_audioRef env s"
  from assms(1,2) have c: "content_elements env s = Inr c"
    by (simp add: render_content)
  then have "js_map search_item_of (searchResults s) = Inr (search_items c)"
    and src: "audio_src c = (if truthy (audioUrl s) then Some (audioUrl s) else None)"
    by (simp_all add: content_search_items)
  then obtain xs where xs: "searchResults s = Arr xs"
    and "map search_item_of xs = map Inr (search_items c)"
    using js_map_Inr by blast
  then have res: "map result (search_items c) = xs"
    and ts: "\<forall>i \<in> set (search_items c). get_prop (result i) ''timestamp'' = Inr (timestamp_child i)"
    using search_items_results by blast+
  from ts assms(3) have t: "get_prop (result i) ''timestamp'' = Inr (timestamp_child i)"
    by blast
  have click: "result_onClick env (result i) ?page = jumpToTimestamp env (timestamp_child i) ?page"
    by (simp add: result_onClick_def t)
  have ref: "audioRef ?page =
      (if truthy (audioUrl s)
       then Some (case audioRef s of
                    None \<Rightarrow> \<lparr>src = audioUrl s, currentTime = 0, playing = False\<rparr>
                  | Some a \<Rightarrow> a\<lparr>src := audioUrl s\<rparr>)
       else None)"
    using assms(1,2) src by (simp add: attach_audioRef_def split: option.splits)
  have 1: "truthy (audioUrl s) \<longrightarrow>
            (\<exists>a. audioRef ?page = Some a \<and>
               (\<forall>x. to_number env (timestamp_child i) = Inr (Fin x) \<longrightarrow>
                  result_onClick env (result i) ?page =
                    ?page\<lparr>audioRef := Some (a\<lparr>currentTime := x, playing := True\<rparr>)\<rparr>))"
    by (simp add: click ref jumpToTimestamp_def set_currentTime_def)
  have 2: "\<not> truthy (audioUrl s) \<longrightarrow>
            audioRef ?page = None \<and> result_onClick env (result i) ?page = ?page"
    by (simp add: click ref jumpToTimestamp_def)
  have 3: "(\<forall>x. to_number env (timestamp_child i) \<noteq> Inr (Fin x)) \<longrightarrow>
            result_onClick env (result i) ?page = ?page"
    by (auto simp: click jumpToTimestamp_def set_currentTime_def
        split: option.splits sum.splits number.splits)
  from xs res t 1 2 3 show ?thesis
    by simp
qed

text \<open>
  The specification's search: one result at 42 seconds. With the recording mounted a click
  sets the player to 42 and starts it; on the page without a recording the same click
  changes nothing.
\<close>

theorem result_click_seeks_audio_witness:
  "ReviewPage_render plain_env (found_cells [price_result]) =
     Inr \<lparr>loading_indicator = False, error_banner = None, page_content = Some price_content\<rparr>
   \<and> audioRef (attach_audioRef plain_env (found_cells [price_result])) = Some player
   \<and> result_onClick plain_env price_result (attach_audioRef plain_env (found_cells [price_result])) =
       (attach_audioRef plain_env (found_cells [price_result]))
         \<lparr>audioRef := Some (player\<lparr>currentTime := 42, playing := True\<rparr>)\<rparr>
   \<and> audioRef (attach_audioRef plain_env (silent_cells [price_result])) = None
   \<and> result_onClick plain_env price_result (attach_audioRef plain_env (silent_cells [price_result])) =
       attach_audioRef plain_env (silent_cells [price_result])"
proof -
  have item: "search_item_of price_result = Inr price_item"
    "valid_child (timestamp_child price_item)" "valid_child (text_child price_item)"
    by (simp_all add: search_item_of_def price_result_def price_item_def)
  have same: "price_content\<lparr>search_items := [price_item]\<rparr> = price_content"
    by (simp add: price_content_def)
  note r = found_render(1) [OF item, unfolded same]
  note r' = found_render(2) [OF item]
  have c: "page_content \<lparr>loading_indicator = False, error_banner = None,
             page_content = Some price_content\<rparr> = Some price_content"
    and c': "page_content \<lparr>loading_indicator = False, error_banner = None,
             page_content = Some (price_content\<lparr>audio_src := None, search_items := [price_item]\<rparr>)\<rparr> =
           Some (price_content\<lparr>audio_src := None, search_items := [price_item]\<rparr>)"
    by simp_all
  have i: "price_item \<in> set (search_items price_content)"
    and i': "price_item \<in> set (search_items (price_content\<lparr>audio_src := None, search_items := [price_item]\<rparr>))"
    by (simp_all add: price_content_def)
  have p: "result price_item = price_result" "timestamp_child price_item = Num (Fin 42)"
    by (simp_all add: price_item_def)
  have u: "truthy (audioUrl (found_cells [price_result]))"
    "\<not> truthy (audioUrl (silent_cells [price_result]))"
    "audioRef (attach_audioRef plain_env (found_cells [price_result])) = Some player"
    using r r'
    by (simp_all add: attach_audioRef_def found_cells_eq silent_cells_eq ReviewPage_init_def
        price_content_def player_def)
  from result_click_seeks_audio [OF r c i] u(1,3)
  have 1: "result_onClick plain_env price_result (attach_audioRef plain_env (found_cells [price_result])) =
       (attach_audioRef plain_env (found_cells [price_result]))
         \<lparr>audioRef := Some (player\<lparr>currentTime := 42, playing := True\<rparr>)\<rparr>"
    by (simp add: p)
  from result_click_seeks_audio [OF r' c' i'] u(2)
  have 2: "audioRef (attach_audioRef plain_env (silent_cells [price_result])) = None
     \<and> result_onClick plain_env price_result (attach_audioRef plain_env (silent_cells [price_result])) =
       attach_audioRef plain_env (silent_cells [price_result])"
    by (simp add: p)
  from r u(3) 1 2 show ?thesis by blast
qed

text \<open>
  Where the code leaves the claim as worded. Both results are on the page, with the
  recording mounted. The first has no \<^verbatim>\<open>timestamp\<close>; the second has the \<^verbatim>\<open>timestamp\<close>
  infinity. A click on either does not start playback: the player is left as it was.
\<close>

theorem result_click_counterexample:
  "ReviewPage_render plain_env (found_cells [untimed_result]) =
     Inr \<lparr>loading_indicator = False, error_banner = None,
          page_content = Some (price_content
            \<lparr>search_items := [\<lparr>result = untimed_result, timestamp_child = Undefined,
                                text_child = Str ''price objection''\<rparr>]\<rparr>)\<rparr>
   \<and> audioRef (attach_audioRef plain_env (found_cells [untimed_result])) = Some player
   \<and> result_onClick plain_env untimed_result (attach_audioRef plain_env (found_cells [untimed_result])) =
       attach_audioRef plain_env (found_cells [untimed_result])
   \<and> ReviewPage_render plain_env (found_cells [endless_result]) =
     Inr \<lparr>loading_indicator = False, error_banner = None,
          page_content = Some (price_content
            \<lparr>search_items := [\<lparr>result = endless_result, timestamp_child = Num PosInf,
                                text_child = Str ''price objection''\<rparr>]\<rparr>)\<rparr>
   \<and> audioRef (attach_audioRef plain_env (found_cells [endless_result])) = Some player
   \<and> result_onClick plain_env endless_result (attach_audioRef plain_env (found_cells [endless_result])) =
       attach_audioRef plain_env (found_cells [endless_result])"
  by (simp add: found_cells_eq attach_audioRef_def ReviewPage_render_def ReviewPage_init_def
      content_elements_def listing_of_def content_children_def src_error_def price_content_def
      search_item_of_def untimed_result_def endless_result_def player_def result_onClick_def
      jumpToTimestamp_def set_currentTime_def)

end
